theory Spec2Isabelle
  imports Complex_Main "HOL-Library.Word"
begin

section \<open>Errors\<close>

text \<open>
  Every way in which an operation of the library can stop without a result is a value:
  \<^item> \<open>LogError msg\<close>: the \<^verbatim>\<open>LogError("...")\<close> statement of GVector.h, which raises
    with the given message;
  \<^item> \<open>OutOfRange\<close>: an element access \<^verbatim>\<open>mTuple[i]\<close> outside the \<^verbatim>\<open>std::vector\<close>
    (GVector.h relies on the range checking of the built-in \<^verbatim>\<open>operator[]\<close>);
  \<^item> \<open>InvalidConfiguration\<close>: the fatal error of a rigid body that is given an invalid mass
    or inertia tensor.
\<close>

datatype error = LogError string | OutOfRange | InvalidConfiguration

section \<open>Mathematics/GVector.h\<close>

text \<open>
  A \<^verbatim>\<open>GVector<Real>\<close> holds one member, \<^verbatim>\<open>std::vector<Real> mTuple\<close>; it is the list of
  its components. Sizes and indices of the class are \<^verbatim>\<open>int32_t\<close>.
\<close>

type_synonym 'a GVector = "'a list"
type_synonym int32_t = "32 word"

text \<open>\<^verbatim>\<open>GetSize\<close> returns \<^verbatim>\<open>static_cast<int32_t>(mTuple.size())\<close>, read as a signed value.\<close>

definition GetSize :: "'a GVector \<Rightarrow> int" where
  "GetSize v = sint (word_of_nat (length v) :: int32_t)"

text \<open>\<^verbatim>\<open>std::fill(mTuple.begin(), mTuple.end(), x)\<close>.\<close>

definition fill :: "'a GVector \<Rightarrow> 'a \<Rightarrow> 'a GVector" where
  "fill v x = map (\<lambda>_. x) v"

definition MakeZero :: "'a::zero GVector \<Rightarrow> 'a GVector" where
  "MakeZero v = fill v 0"

text \<open>
  A member function or an operator that writes to its vector returns the contents of the
  vector when it stops, together with the error it raised, if any.
\<close>

definition MakeUnit :: "'a::{zero,one} GVector \<Rightarrow> int32_t \<Rightarrow> 'a GVector \<times> error option" where
  "MakeUnit v d =
     (let z = fill v 0 in
      if 0 \<le> sint d \<and> sint d < sint (word_of_nat (length z) :: int32_t) then
        (if nat (sint d) < length z then (z[nat (sint d) := 1], None)
         else (z, Some OutOfRange))
      else (z, None))"

text \<open>
  The loops \<^verbatim>\<open>for (int32_t i = 0; i < v.GetSize(); ++i)\<close>. The counter starts at 0 and stays
  below \<open>GetSize v\<close>, an \<^verbatim>\<open>int32_t\<close> value, so it never wraps and is a natural number here.
\<close>

function add_assign_loop ::
  "nat \<Rightarrow> 'a::plus GVector \<Rightarrow> 'a GVector \<Rightarrow> 'a GVector \<times> error option" where
  "add_assign_loop i v0 v1 =
     (if int i < GetSize v0 then
        (if i < length v0 \<and> i < length v1 then
           add_assign_loop (Suc i) (v0[i := v0 ! i + v1 ! i]) v1
         else (v0, Some OutOfRange))
      else (v0, None))"
  by pat_completeness auto
termination
  by (relation "measure (\<lambda>(i, v0, v1). length v0 - i)") auto

definition operator_add_assign ::
  "'a::plus GVector \<Rightarrow> 'a GVector \<Rightarrow> 'a GVector \<times> error option" where
  "operator_add_assign v0 v1 =
     (if GetSize v0 = GetSize v1 then add_assign_loop 0 v0 v1
      else (v0, Some (LogError ''Mismatched sizes.'')))"

section \<open>The scalars of \<^verbatim>\<open>Normalize\<close>: IEEE 754 double precision\<close>

text \<open>
  \<^verbatim>\<open>Normalize\<close>, \<^verbatim>\<open>Length\<close>, \<^verbatim>\<open>Dot\<close> and \<^verbatim>\<open>operator/=\<close> compute with the scalars
  themselves, and what they return depends on overflow, underflow and NaN. Their
  \<^verbatim>\<open>Real\<close> is \<^verbatim>\<open>double\<close> here, the scalar type of the rigid bodies of the repository:
  IEEE 754 binary64 with the default rounding, to nearest with ties to even. A value is
  a NaN, an infinity, the negative zero, or \<open>Val x\<close> for the real number \<open>x\<close> it stands for
  (\<open>Val 0\<close> is the positive zero). The finite doubles are the numbers \<open>m 2\<^sup>e\<close> with
  \<open>\<bar>m\<bar> < 2\<^sup>5\<^sup>3\<close> and \<open>-1074 \<le> e \<le> 971\<close>; every operation returns a double or a
  special value when it is given doubles.
\<close>

datatype double = NaN | PInf | NInf | NegZero | Val real

definition pow2 :: "int \<Rightarrow> real" where
  "pow2 e = (if 0 \<le> e then 2 ^ nat e else 1 / 2 ^ nat (- e))"

text \<open>The integer nearest to \<open>q\<close>, the even one of the two when \<open>q\<close> lies half way.\<close>

definition round_even :: "real \<Rightarrow> int" where
  "round_even q =
     (let f = \<lfloor>q\<rfloor> in
      if q - of_int f < 1 / 2 then f
      else if q - of_int f > 1 / 2 then f + 1
      else if even f then f else f + 1)"

text \<open>
  The exponent of the unit in the last place of the doubles around the magnitude \<open>a\<close>:
  \<open>-1074\<close> in the subnormal range, below \<open>2\<^sup>-\<^sup>1\<^sup>0\<^sup>2\<^sup>2\<close>, and 52 below the
  exponent of \<open>a\<close> otherwise.
\<close>

definition ulp_exponent :: "real \<Rightarrow> int" where
  "ulp_exponent a = (if a < pow2 (- 1022) then - 1074 else \<lfloor>log 2 a\<rfloor> - 52)"

definition signed_inf :: "bool \<Rightarrow> double" where
  "signed_inf s = (if s then NInf else PInf)"

definition signed_zero :: "bool \<Rightarrow> double" where
  "signed_zero s = (if s then NegZero else Val 0)"

text \<open>
  Rounding of the exact result \<open>x\<close> of an operation. A magnitude of at least
  \<open>2\<^sup>1\<^sup>0\<^sup>2\<^sup>4 - 2\<^sup>9\<^sup>7\<^sup>0\<close>, half a unit above the largest double, overflows to the
  infinity of the sign of \<open>x\<close>; a magnitude that rounds to 0 underflows to the zero of the
  sign of \<open>x\<close>.
\<close>

definition rnd :: "real \<Rightarrow> double" where
  "rnd x =
     (let a = \<bar>x\<bar> in
      if pow2 1024 - pow2 970 \<le> a then signed_inf (x < 0)
      else
        (let e = ulp_exponent a;
             r = of_int (round_even (a / pow2 e)) * pow2 e
         in if r = 0 then signed_zero (x < 0) else Val (if x < 0 then - r else r)))"

fun sign_bit :: "double \<Rightarrow> bool" where
  "sign_bit NaN = False"
| "sign_bit PInf = False"
| "sign_bit NInf = True"
| "sign_bit NegZero = True"
| "sign_bit (Val x) = (x < 0)"

fun finite_value :: "double \<Rightarrow> real" where
  "finite_value (Val x) = x"
| "finite_value _ = 0"

definition is_inf :: "double \<Rightarrow> bool" where
  "is_inf a = (a = PInf \<or> a = NInf)"

definition is_zero :: "double \<Rightarrow> bool" where
  "is_zero a = (a = Val 0 \<or> a = NegZero)"

text \<open>
  The product \<^verbatim>\<open>a * b\<close>: NaN when an operand is NaN or for \<open>\<infinity> \<times> 0\<close>; otherwise an
  infinity or a zero of the product of the signs when an operand is one; otherwise the
  exact product, rounded.
\<close>

definition dmul :: "double \<Rightarrow> double \<Rightarrow> double" where
  "dmul a b =
     (if a = NaN \<or> b = NaN then NaN
      else if (is_inf a \<and> is_zero b) \<or> (is_zero a \<and> is_inf b) then NaN
      else if is_inf a \<or> is_inf b then signed_inf (sign_bit a \<noteq> sign_bit b)
      else if is_zero a \<or> is_zero b then signed_zero (sign_bit a \<noteq> sign_bit b)
      else rnd (finite_value a * finite_value b))"

text \<open>
  The quotient \<^verbatim>\<open>a / b\<close>: NaN when an operand is NaN and for \<open>\<infinity> / \<infinity>\<close> and \<open>0 / 0\<close>; an
  infinity when \<open>a\<close> is infinite or \<open>b\<close> is a zero; a zero when \<open>a\<close> is a zero or \<open>b\<close> is
  infinite; otherwise the exact quotient, rounded.
\<close>

definition ddiv :: "double \<Rightarrow> double \<Rightarrow> double" where
  "ddiv a b =
     (if a = NaN \<or> b = NaN then NaN
      else if (is_inf a \<and> is_inf b) \<or> (is_zero a \<and> is_zero b) then NaN
      else if is_inf a \<or> is_zero b then signed_inf (sign_bit a \<noteq> sign_bit b)
      else if is_zero a \<or> is_inf b then signed_zero (sign_bit a \<noteq> sign_bit b)
      else rnd (finite_value a / finite_value b))"

text \<open>
  The sum \<^verbatim>\<open>a + b\<close>: NaN when an operand is NaN and for \<open>\<infinity> + (-\<infinity>)\<close>; the infinite
  operand when there is one; for two zeros the negative zero when both are, the positive
  zero otherwise; the other operand when one is a zero; the positive zero when the exact
  sum of two nonzero operands is 0; otherwise the exact sum, rounded.
\<close>

definition dadd :: "double \<Rightarrow> double \<Rightarrow> double" where
  "dadd a b =
     (if a = NaN \<or> b = NaN then NaN
      else if is_inf a \<and> is_inf b then (if a = b then a else NaN)
      else if is_inf a then a
      else if is_inf b then b
      else if is_zero a \<and> is_zero b then
        (if a = NegZero \<and> b = NegZero then NegZero else Val 0)
      else if is_zero a then b
      else if is_zero b then a
      else if finite_value a + finite_value b = 0 then Val 0
      else rnd (finite_value a + finite_value b))"

text \<open>\<^verbatim>\<open>std::sqrt\<close>: NaN for a NaN and for a negative argument, the exact root rounded otherwise.\<close>

fun dsqrt :: "double \<Rightarrow> double" where
  "dsqrt NaN = NaN"
| "dsqrt PInf = PInf"
| "dsqrt NInf = NaN"
| "dsqrt NegZero = NegZero"
| "dsqrt (Val x) = (if x < 0 then NaN else if x = 0 then Val 0 else rnd (sqrt x))"

text \<open>\<^verbatim>\<open>std::fabs\<close> clears the sign.\<close>

fun fabs :: "double \<Rightarrow> double" where
  "fabs NaN = NaN"
| "fabs PInf = PInf"
| "fabs NInf = PInf"
| "fabs NegZero = Val 0"
| "fabs (Val x) = Val \<bar>x\<bar>"

text \<open>
  The comparisons \<^verbatim>\<open><\<close>, \<^verbatim>\<open>>\<close> and \<^verbatim>\<open>!=\<close>. A comparison with a NaN is false, except
  \<^verbatim>\<open>!=\<close>, which is true; the two zeros are equal.
\<close>

fun dless :: "double \<Rightarrow> double \<Rightarrow> bool" where
  "dless NaN b = False"
| "dless a NaN = False"
| "dless PInf b = False"
| "dless a NInf = False"
| "dless NInf b = True"
| "dless a PInf = True"
| "dless a b = (finite_value a < finite_value b)"

definition dgreater :: "double \<Rightarrow> double \<Rightarrow> bool" where
  "dgreater a b = dless b a"

definition dnoteq :: "double \<Rightarrow> double \<Rightarrow> bool" where
  "dnoteq a b =
     (if a = NaN \<or> b = NaN then True
      else if is_inf a \<or> is_inf b then a \<noteq> b
      else finite_value a \<noteq> finite_value b)"

text \<open>The smallest positive double, \<open>2\<^sup>-\<^sup>1\<^sup>0\<^sup>7\<^sup>4\<close> (the subnormal \<^verbatim>\<open>5e-324\<close>).\<close>

definition min_subnormal :: double where
  "min_subnormal = Val (1 / 2 ^ 1074)"

section \<open>Mathematics/GVector.h: the operations on scalars\<close>

text \<open>The loop \<^verbatim>\<open>v[i] *= scalar\<close> of \<^verbatim>\<open>operator*=\<close> and of \<^verbatim>\<open>operator/=\<close>.\<close>

function mul_assign_loop ::
  "nat \<Rightarrow> double GVector \<Rightarrow> double \<Rightarrow> double GVector \<times> error option" where
  "mul_assign_loop i v scalar =
     (if int i < GetSize v then
        (if i < length v then mul_assign_loop (Suc i) (v[i := dmul (v ! i) scalar]) scalar
         else (v, Some OutOfRange))
      else (v, None))"
  by pat_completeness auto
termination
  by (relation "measure (\<lambda>(i, v, scalar). length v - i)") auto

definition operator_mul_assign ::
  "double GVector \<Rightarrow> double \<Rightarrow> double GVector \<times> error option" where
  "operator_mul_assign v scalar = mul_assign_loop 0 v scalar"

definition operator_div_assign ::
  "double GVector \<Rightarrow> double \<Rightarrow> double GVector \<times> error option" where
  "operator_div_assign v scalar =
     (if dnoteq scalar (Val 0) then
        (let invScalar = ddiv (Val 1) scalar in mul_assign_loop 0 v invScalar)
      else (v, Some (LogError ''Division by zero.'')))"

text \<open>\<^verbatim>\<open>operator/\<close> copies its argument and divides the copy.\<close>

definition operator_div :: "double GVector \<Rightarrow> double \<Rightarrow> error + double GVector" where
  "operator_div v scalar =
     (case operator_div_assign v scalar of
        (result, None) \<Rightarrow> Inr result
      | (result, Some e) \<Rightarrow> Inl e)"

function Dot_loop ::
  "nat \<Rightarrow> double GVector \<Rightarrow> double GVector \<Rightarrow> double \<Rightarrow> error + double" where
  "Dot_loop i v0 v1 dot =
     (if int i < GetSize v0 then
        (if i < length v0 \<and> i < length v1 then
           Dot_loop (Suc i) v0 v1 (dadd dot (dmul (v0 ! i) (v1 ! i)))
         else Inl OutOfRange)
      else Inr dot)"
  by pat_completeness auto
termination
  by (relation "measure (\<lambda>(i, v0, v1, dot). length v0 - i)") auto

definition Dot :: "double GVector \<Rightarrow> double GVector \<Rightarrow> error + double" where
  "Dot v0 v1 =
     (if GetSize v0 = GetSize v1 then Dot_loop 0 v0 v1 (Val 0)
      else Inl (LogError ''Mismatched sizes.''))"

text \<open>The search for the largest absolute component, the same loop in \<^verbatim>\<open>Length\<close> and \<^verbatim>\<open>Normalize\<close>.\<close>

function maxAbsComp_loop :: "nat \<Rightarrow> double GVector \<Rightarrow> double \<Rightarrow> error + double" where
  "maxAbsComp_loop i v maxAbsComp =
     (if int i < GetSize v then
        (if i < length v then
           (let absComp = fabs (v ! i) in
            maxAbsComp_loop (Suc i) v
              (if dgreater absComp maxAbsComp then absComp else maxAbsComp))
         else Inl OutOfRange)
      else Inr maxAbsComp)"
  by pat_completeness auto
termination
  by (relation "measure (\<lambda>(i, v, m). length v - i)") auto

text \<open>The loop \<^verbatim>\<open>v[i] = (Real)0\<close> of \<^verbatim>\<open>Normalize\<close>.\<close>

function zero_loop :: "nat \<Rightarrow> double GVector \<Rightarrow> double GVector \<times> error option" where
  "zero_loop i v =
     (if int i < GetSize v then
        (if i < length v then zero_loop (Suc i) (v[i := Val 0])
         else (v, Some OutOfRange))
      else (v, None))"
  by pat_completeness auto
termination
  by (relation "measure (\<lambda>(i, v). length v - i)") auto

definition Length :: "double GVector \<Rightarrow> bool \<Rightarrow> error + double" where
  "Length v robust =
     (if robust then
        (if 0 < length v then
           (case maxAbsComp_loop 1 v (fabs (v ! 0)) of
              Inl e \<Rightarrow> Inl e
            | Inr maxAbsComp \<Rightarrow>
                if dgreater maxAbsComp (Val 0) then
                  (case operator_div v maxAbsComp of
                     Inl e \<Rightarrow> Inl e
                   | Inr scaled \<Rightarrow>
                       (case Dot scaled scaled of
                          Inl e \<Rightarrow> Inl e
                        | Inr d \<Rightarrow> Inr (dmul maxAbsComp (dsqrt d))))
                else Inr (Val 0))
         else Inl OutOfRange)
      else
        (case Dot v v of
           Inl e \<Rightarrow> Inl e
         | Inr d \<Rightarrow> Inr (dsqrt d)))"

text \<open>
  \<^verbatim>\<open>Normalize\<close> writes to \<open>v\<close> and returns the length: the result is the final contents of
  \<open>v\<close> and either the error raised or the returned length. The robust branch starts by
  reading \<^verbatim>\<open>v[0]\<close>.
\<close>

definition Normalize ::
  "double GVector \<Rightarrow> bool \<Rightarrow> double GVector \<times> (error + double)" where
  "Normalize v robust =
     (if robust then
        (if 0 < length v then
           (case maxAbsComp_loop 1 v (fabs (v ! 0)) of
              Inl e \<Rightarrow> (v, Inl e)
            | Inr maxAbsComp \<Rightarrow>
                if dgreater maxAbsComp (Val 0) then
                  (case operator_div_assign v maxAbsComp of
                     (v1, Some e) \<Rightarrow> (v1, Inl e)
                   | (v1, None) \<Rightarrow>
                       (case Dot v1 v1 of
                          Inl e \<Rightarrow> (v1, Inl e)
                        | Inr d \<Rightarrow>
                            (let len = dsqrt d in
                             case operator_div_assign v1 len of
                               (v2, Some e) \<Rightarrow> (v2, Inl e)
                             | (v2, None) \<Rightarrow> (v2, Inr (dmul len maxAbsComp)))))
                else
                  (case zero_loop 0 v of
                     (v1, Some e) \<Rightarrow> (v1, Inl e)
                   | (v1, None) \<Rightarrow> (v1, Inr (Val 0))))
         else (v, Inl OutOfRange))
      else
        (case Dot v v of
           Inl e \<Rightarrow> (v, Inl e)
         | Inr d \<Rightarrow>
             (let len = dsqrt d in
              if dgreater len (Val 0) then
                (case operator_div_assign v len of
                   (v1, Some e) \<Rightarrow> (v1, Inl e)
                 | (v1, None) \<Rightarrow> (v1, Inr len))
              else
                (case zero_loop 0 v of
                   (v1, Some e) \<Rightarrow> (v1, Inl e)
                 | (v1, None) \<Rightarrow> (v1, Inr len)))))"

section \<open>Vectors, matrices and primitives used by the rigid bodies\<close>

text \<open>
  Modelled from the spec: the 3-vectors of the math surface (Vector.h is not among the
  sources). A vector is its three components.
\<close>

datatype 'a Vector3 = Vec3 (c0: 'a) (c1: 'a) (c2: 'a)

text \<open>
  Modelled from the spec: the quaternions of the math surface (Quaternion.h is not among
  the sources), four scalars.
\<close>

datatype 'a Quaternion = Quat 'a 'a 'a 'a

text \<open>
  Modelled from the spec: the 3x3 matrices of the math surface (Matrix3x3.h is not among
  the sources). A matrix is its three rows.
\<close>

datatype 'a Matrix3x3 = Mat3 (row0: "'a Vector3") (row1: "'a Vector3") (row2: "'a Vector3")

text \<open>Modelled from the spec: the dot product \<open>n\<cdot>p\<close> of two 3-vectors.\<close>

definition Dot3 :: "real Vector3 \<Rightarrow> real Vector3 \<Rightarrow> real" where
  "Dot3 u v = c0 u * c0 v + c1 u * c1 v + c2 u * c2 v"

text \<open>Modelled from the spec: the 3x3 identity matrix \<open>I\<close>.\<close>

definition Identity :: "real Matrix3x3" where
  "Identity = Mat3 (Vec3 1 0 0) (Vec3 0 1 0) (Vec3 0 0 1)"

text \<open>Modelled from the spec: the product of a scalar and a vector, entry by entry.\<close>

fun scale_Vector3 :: "real \<Rightarrow> real Vector3 \<Rightarrow> real Vector3" where
  "scale_Vector3 s (Vec3 a b c) = Vec3 (s * a) (s * b) (s * c)"

text \<open>
  Modelled from the spec: the product of a scalar and a matrix, entry by entry
  (\<^verbatim>\<open>operator*\<close> of Matrix3x3.h).
\<close>

fun scale_Matrix3x3 :: "real \<Rightarrow> real Matrix3x3 \<Rightarrow> real Matrix3x3" where
  "scale_Matrix3x3 s (Mat3 r0 r1 r2) =
     Mat3 (scale_Vector3 s r0) (scale_Vector3 s r1) (scale_Vector3 s r2)"

text \<open>
  Modelled from the spec: the constant \<open>\<pi>\<close> of the volume formula (the macro
  \<^verbatim>\<open>GTE_C_PI\<close> is defined in a header that is not among the sources).
\<close>

definition GTE_C_PI :: real where
  "GTE_C_PI = pi"

text \<open>HyperSphere.h: \<^verbatim>\<open>Sphere3<T>\<close> has the public members \<^verbatim>\<open>center\<close> and \<^verbatim>\<open>radius\<close>.\<close>

record 'a Sphere3 =
  center :: "'a Vector3"
  radius :: 'a

text \<open>
  Modelled from the spec: the plane \<open>(n, d)\<close> of the points \<open>p\<close> with \<open>n\<cdot>p = d\<close>
  (Hyperplane.h is not among the sources; RigidPlane.h reads the members
  \<^verbatim>\<open>normal\<close> and \<^verbatim>\<open>constant\<close>).
\<close>

record 'a Plane3 =
  normal :: "'a Vector3"
  "constant" :: 'a

section \<open>RigidBody\<close>

text \<open>
  Modelled from the spec: the class template \<^verbatim>\<open>RigidBody<Real>\<close> (RigidBody.h is not
  among the sources). A body has the state \<open>(x, q, P, L)\<close>, the constants
  \<open>(m, J_body)\<close> and the accumulators \<open>F\<close> and \<open>\<tau>\<close> of the applied force and torque.
\<close>

record 'a RigidBody =
  mPosition :: "'a Vector3"
  mQuatOrient :: "'a Quaternion"
  mLinearMomentum :: "'a Vector3"
  mAngularMomentum :: "'a Vector3"
  mMass :: 'a
  mBodyInertia :: "'a Matrix3x3"
  mForce :: "'a Vector3"
  mTorque :: "'a Vector3"

text \<open>
  Modelled from the spec: a symmetric 3x3 matrix is positive definite; decided by the
  signs of its three leading principal minors.
\<close>

fun IsPositiveDefinite :: "real Matrix3x3 \<Rightarrow> bool" where
  "IsPositiveDefinite (Mat3 (Vec3 a00 a01 a02) (Vec3 a10 a11 a12) (Vec3 a20 a21 a22)) \<longleftrightarrow>
     a01 = a10 \<and> a02 = a20 \<and> a12 = a21 \<and>
     0 < a00 \<and>
     0 < a00 * a11 - a01 * a10 \<and>
     0 < a00 * (a11 * a22 - a12 * a21) - a01 * (a10 * a22 - a12 * a20)
           + a02 * (a10 * a21 - a11 * a20)"

text \<open>
  Modelled from the spec: the setter of the mass. Giving a body a mass \<open>m \<le> 0\<close> is a
  programming error and fails fast.
\<close>

definition SetMass ::
  "real \<Rightarrow> (real, 'z) RigidBody_scheme \<Rightarrow> error + (real, 'z) RigidBody_scheme" where
  "SetMass m b = (if m \<le> 0 then Inl InvalidConfiguration else Inr (b\<lparr>mMass := m\<rparr>))"

text \<open>
  Modelled from the spec: the setter of the body inertia tensor. Giving a body an inertia
  tensor that is not positive definite is a programming error and fails fast.
\<close>

definition SetBodyInertia ::
  "real Matrix3x3 \<Rightarrow> (real, 'z) RigidBody_scheme \<Rightarrow> error + (real, 'z) RigidBody_scheme" where
  "SetBodyInertia J b =
     (if IsPositiveDefinite J then Inr (b\<lparr>mBodyInertia := J\<rparr>) else Inl InvalidConfiguration)"

text \<open>Modelled from the spec: the setter of the position \<open>x\<close>.\<close>

definition SetPosition ::
  "'a Vector3 \<Rightarrow> ('a, 'z) RigidBody_scheme \<Rightarrow> ('a, 'z) RigidBody_scheme" where
  "SetPosition p b = b\<lparr>mPosition := p\<rparr>"

text \<open>Modelled from the spec: the observer of the position \<open>x\<close>.\<close>

definition GetPosition :: "('a, 'z) RigidBody_scheme \<Rightarrow> 'a Vector3" where
  "GetPosition b = mPosition b"

text \<open>Modelled from the spec: the observer of the mass \<open>m\<close>.\<close>

definition GetMass :: "('a, 'z) RigidBody_scheme \<Rightarrow> 'a" where
  "GetMass b = mMass b"

text \<open>Modelled from the spec: the observer of the body inertia tensor \<open>J_body\<close>.\<close>

definition GetBodyInertia :: "('a, 'z) RigidBody_scheme \<Rightarrow> 'a Matrix3x3" where
  "GetBodyInertia b = mBodyInertia b"

section \<open>Rigidsphere.h and RigidSphere.cpp\<close>

text \<open>
  \<^verbatim>\<open>class RigidSphere : public RigidBody<double>\<close> adds the private member
  \<^verbatim>\<open>mWorldSphere\<close>. The scalars are real numbers here.
\<close>

record RigidSphere = "real RigidBody" +
  mWorldSphere :: "real Sphere3"

definition GetWorldSphere :: "RigidSphere \<Rightarrow> real Sphere3" where
  "GetWorldSphere s = mWorldSphere s"

definition GetRadius :: "RigidSphere \<Rightarrow> real" where
  "GetRadius s = radius (mWorldSphere s)"

definition UpdateWorldQuantities :: "RigidSphere \<Rightarrow> RigidSphere" where
  "UpdateWorldQuantities s = s\<lparr>mWorldSphere := (mWorldSphere s)\<lparr>center := GetPosition s\<rparr>\<rparr>"

text \<open>
  The constructor. \<open>b0\<close> is the state in which \<^verbatim>\<open>RigidBody<double>{}\<close> leaves the members
  of the base class (RigidBody.h is not among the sources, so that state is a parameter).
  An error raised by a setter leaves the constructor, and no sphere is constructed. The
  call of \<^verbatim>\<open>UpdateWorldQuantities\<close> is the one of RigidSphere.
\<close>

definition RigidSphere_ctor :: "real RigidBody \<Rightarrow> real Sphere3 \<Rightarrow> real \<Rightarrow> error + RigidSphere" where
  "RigidSphere_ctor b0 sphere massDensity =
     (let this = RigidBody.extend b0
                   (RigidSphere.fields \<lparr>center = Vec3 0 0 0, radius = radius sphere\<rparr>);
          rCubed = radius sphere * radius sphere * radius sphere;
          volume = 4 * GTE_C_PI * rCubed / 3;
          mass = massDensity * volume;
          bodyInertia = scale_Matrix3x3 massDensity Identity
      in case SetMass mass this of
           Inl e \<Rightarrow> Inl e
         | Inr this1 \<Rightarrow>
             (case SetBodyInertia bodyInertia this1 of
                Inl e \<Rightarrow> Inl e
              | Inr this2 \<Rightarrow>
                  Inr (UpdateWorldQuantities (SetPosition (center sphere) this2))))"

text \<open>
  The operations on a constructed sphere: its own \<^verbatim>\<open>UpdateWorldQuantities\<close>, the
  inherited \<^verbatim>\<open>SetPosition\<close>, and any other inherited member function, which is a function
  on the members of the base class (\<^verbatim>\<open>mWorldSphere\<close> is private to \<^verbatim>\<open>RigidSphere\<close>).
\<close>

datatype sphere_op =
    OpSetPosition "real Vector3"
  | OpUpdateWorldQuantities
  | OpInheritedS "real RigidBody \<Rightarrow> real RigidBody"

fun RigidSphere_exec :: "sphere_op \<Rightarrow> RigidSphere \<Rightarrow> RigidSphere" where
  "RigidSphere_exec (OpSetPosition p) s = SetPosition p s"
| "RigidSphere_exec OpUpdateWorldQuantities s = UpdateWorldQuantities s"
| "RigidSphere_exec (OpInheritedS f) s =
     RigidBody.extend (f (RigidBody.truncate s)) (RigidBody.more s)"

fun RigidSphere_run :: "RigidSphere \<Rightarrow> sphere_op list \<Rightarrow> RigidSphere" where
  "RigidSphere_run s [] = s"
| "RigidSphere_run s (a # as) = RigidSphere_run (RigidSphere_exec a s) as"

text \<open>
  The formula of the spec for a solid sphere of density \<open>\<rho>\<close> and radius \<open>r\<close>:
  \<open>J_body = (2/5) m r\<^sup>2 I\<close> with \<open>m = \<rho> (4/3) \<pi> r\<^sup>3\<close>.
\<close>

definition spec_sphere_mass :: "real \<Rightarrow> real \<Rightarrow> real" where
  "spec_sphere_mass \<rho> r = \<rho> * (4 / 3) * pi * r ^ 3"

definition spec_sphere_inertia :: "real \<Rightarrow> real \<Rightarrow> real Matrix3x3" where
  "spec_sphere_inertia \<rho> r = scale_Matrix3x3 ((2 / 5) * spec_sphere_mass \<rho> r * r\<^sup>2) Identity"

text \<open>A body at rest at the origin, used as the base state in the examples.\<close>

definition body_at_rest :: "real RigidBody" where
  "body_at_rest =
     \<lparr>mPosition = Vec3 0 0 0, mQuatOrient = Quat 1 0 0 0,
      mLinearMomentum = Vec3 0 0 0, mAngularMomentum = Vec3 0 0 0, mMass = 1,
      mBodyInertia = Identity, mForce = Vec3 0 0 0, mTorque = Vec3 0 0 0\<rparr>"

section \<open>RigidPlane.h\<close>

text \<open>
  \<^verbatim>\<open>class RigidPlane : public RigidBody<double>\<close> adds the private member \<^verbatim>\<open>mPlane\<close>.
\<close>

record RigidPlane = "real RigidBody" +
  mPlane :: "real Plane3"

definition GetPlane :: "RigidPlane \<Rightarrow> real Plane3" where
  "GetPlane pl = mPlane pl"

definition GetSignedDistance :: "RigidPlane \<Rightarrow> real Vector3 \<Rightarrow> real" where
  "GetSignedDistance pl point = Dot3 (normal (mPlane pl)) point - constant (mPlane pl)"

text \<open>
  The operations on a constructed plane, each with the state it leaves and the value it
  returns: the two \<^verbatim>\<open>const\<close> member functions of \<^verbatim>\<open>RigidPlane\<close>, and any inherited member
  function, which is a function on the members of the base class (\<^verbatim>\<open>mPlane\<close> is private
  to \<^verbatim>\<open>RigidPlane\<close>).
\<close>

datatype plane_op =
    OpGetPlane
  | OpGetSignedDistance "real Vector3"
  | OpInheritedP "real RigidBody \<Rightarrow> real RigidBody"

datatype plane_result = RetPlane "real Plane3" | RetReal real | RetVoid

fun RigidPlane_call :: "plane_op \<Rightarrow> RigidPlane \<Rightarrow> RigidPlane \<times> plane_result" where
  "RigidPlane_call OpGetPlane pl = (pl, RetPlane (GetPlane pl))"
| "RigidPlane_call (OpGetSignedDistance point) pl = (pl, RetReal (GetSignedDistance pl point))"
| "RigidPlane_call (OpInheritedP f) pl =
     (RigidBody.extend (f (RigidBody.truncate pl)) (RigidBody.more pl), RetVoid)"

fun RigidPlane_run :: "RigidPlane \<Rightarrow> plane_op list \<Rightarrow> RigidPlane" where
  "RigidPlane_run pl [] = pl"
| "RigidPlane_run pl (a # as) = RigidPlane_run (fst (RigidPlane_call a pl)) as"

section \<open>Examples\<close>

text \<open>The unit ball at the origin, and the sphere constructed from it with density 1.\<close>

definition unit_ball :: "real Sphere3" where
  "unit_ball = \<lparr>center = Vec3 0 0 0, radius = 1\<rparr>"

definition unit_ball_body :: RigidSphere where
  "unit_ball_body =
     \<lparr>mPosition = Vec3 0 0 0, mQuatOrient = Quat 1 0 0 0,
      mLinearMomentum = Vec3 0 0 0, mAngularMomentum = Vec3 0 0 0,
      mMass = 4 * pi / 3,
      mBodyInertia = Mat3 (Vec3 1 0 0) (Vec3 0 1 0) (Vec3 0 0 1),
      mForce = Vec3 0 0 0, mTorque = Vec3 0 0 0,
      mWorldSphere = \<lparr>center = Vec3 0 0 0, radius = 1\<rparr>\<rparr>"

text \<open>The floor: the plane \<open>y = 0\<close> with the normal \<open>(0, 1, 0)\<close>.\<close>

definition floor_plane :: RigidPlane where
  "floor_plane =
     \<lparr>mPosition = Vec3 0 0 0, mQuatOrient = Quat 1 0 0 0,
      mLinearMomentum = Vec3 0 0 0, mAngularMomentum = Vec3 0 0 0,
      mMass = 1,
      mBodyInertia = Mat3 (Vec3 1 0 0) (Vec3 0 1 0) (Vec3 0 0 1),
      mForce = Vec3 0 0 0, mTorque = Vec3 0 0 0,
      mPlane = \<lparr>normal = Vec3 0 1 0, constant = 0\<rparr>\<rparr>"

section \<open>Lemmas on GVector\<close>

declare add_assign_loop.simps [simp del] mul_assign_loop.simps [simp del]
  Dot_loop.simps [simp del] maxAbsComp_loop.simps [simp del] zero_loop.simps [simp del]

text \<open>
  \<^verbatim>\<open>SetSize\<close> takes an \<^verbatim>\<open>int32_t\<close> and asserts that it is not negative, so a vector of the
  class has fewer than \<open>2\<^sup>3\<^sup>1\<close> components, and then \<open>GetSize\<close> is the number of components.
\<close>

lemma GetSize_eq_signed_take_bit: "GetSize v = signed_take_bit 31 (int (length v))"
  by (simp add: GetSize_def signed_of_nat)

lemma GetSize_small: "length v < 2 ^ 31 \<Longrightarrow> GetSize v = int (length v)"
  by (simp add: GetSize_eq_signed_take_bit signed_take_bit_int_eq_self)

lemma GetSize_le_length: "GetSize v \<le> int (length v)"
  by (simp add: GetSize_eq_signed_take_bit signed_take_bit_int_less_eq_self_iff)

lemma fill_replicate: "fill v x = replicate (length v) x"
  by (simp add: fill_def map_replicate_const)

lemma add_assign_loop_eq:
  "length v0 = length v1 \<Longrightarrow> length v0 < 2 ^ 31 \<Longrightarrow> i \<le> length v0 \<Longrightarrow>
   add_assign_loop i v0 v1 = (take i v0 @ map2 (+) (drop i v0) (drop i v1), None)"
proof (induction i v0 v1 rule: add_assign_loop.induct)
  case (1 i v0 v1)
  show ?case
  proof (cases "i < length v0")
    case True
    let ?w = "v0[i := v0 ! i + v1 ! i]"
    have sz: "int i < GetSize v0" using True "1.prems" by (simp add: GetSize_small)
    have i1: "i < length v1" using True "1.prems" by simp
    have step: "add_assign_loop i v0 v1 = add_assign_loop (Suc i) ?w v1"
      using sz True i1 by (subst add_assign_loop.simps) simp
    have ih: "add_assign_loop (Suc i) ?w v1 =
        (take (Suc i) ?w @ map2 (+) (drop (Suc i) ?w) (drop (Suc i) v1), None)"
      using "1.IH" [OF sz] True i1 "1.prems" by simp
    have t: "take (Suc i) ?w = take i v0 @ [v0 ! i + v1 ! i]"
      using True by (simp add: take_Suc_conv_app_nth)
    have d0: "drop i v0 = v0 ! i # drop (Suc i) v0"
      using True by (simp add: Cons_nth_drop_Suc)
    have d1: "drop i v1 = v1 ! i # drop (Suc i) v1"
      using i1 by (simp add: Cons_nth_drop_Suc)
    show ?thesis
      by (simp add: step ih t d0 d1)
  next
    case False
    then have e: "i = length v0" using "1.prems" by simp
    have "\<not> int i < GetSize v0" using e "1.prems" by (simp add: GetSize_small)
    then have "add_assign_loop i v0 v1 = (v0, None)"
      by (subst add_assign_loop.simps) simp
    then show ?thesis using e "1.prems" by simp
  qed
qed

text \<open>Values of the operations on doubles that the evaluations below use.\<close>

lemma one_over_min_subnormal: "ddiv (Val 1) min_subnormal = PInf"
  by (simp add: min_subnormal_def ddiv_def is_inf_def is_zero_def rnd_def pow2_def
      signed_inf_def)

lemma min_subnormal_squared: "dmul min_subnormal min_subnormal = Val 0"
  by (simp add: min_subnormal_def dmul_def is_inf_def is_zero_def rnd_def pow2_def
      ulp_exponent_def round_even_def signed_zero_def Let_def)

lemma min_subnormal_facts:
  "min_subnormal \<noteq> NaN" "\<not> is_inf min_subnormal" "\<not> is_zero min_subnormal"
  "fabs min_subnormal = min_subnormal" "dgreater min_subnormal (Val 0)"
  "\<not> dgreater (Val 0) min_subnormal" "dnoteq min_subnormal (Val 0)"
  "sign_bit min_subnormal = False"
  by (simp_all add: min_subnormal_def is_inf_def is_zero_def dgreater_def dnoteq_def)

lemma double_facts:
  "dmul (Val 0) (Val 0) = Val 0" "dadd (Val 0) (Val 0) = Val 0" "dsqrt (Val 0) = Val 0"
  "\<not> dgreater (Val 0) (Val 0)" "fabs (Val 0) = Val 0"
  "dmul min_subnormal PInf = PInf" "dmul (Val 0) PInf = NaN"
  "dmul PInf PInf = PInf" "dadd (Val 0) PInf = PInf" "dmul NaN NaN = NaN"
  "dadd PInf NaN = NaN" "dsqrt NaN = NaN" "dnoteq NaN (Val 0)" "ddiv (Val 1) NaN = NaN"
  "dmul PInf NaN = NaN" "dmul NaN min_subnormal = NaN"
  by (simp_all add: dmul_def dadd_def ddiv_def dgreater_def dnoteq_def is_inf_def is_zero_def
      signed_zero_def signed_inf_def min_subnormal_def)

text \<open>On the zero vector the loops leave everything as it is.\<close>

lemma zero_loop_zeros:
  "n < 2 ^ 31 \<Longrightarrow> i \<le> n \<Longrightarrow>
   zero_loop i (replicate n (Val 0)) = (replicate n (Val 0), None)"
proof (induction "n - i" arbitrary: i)
  case 0
  then have "\<not> int i < GetSize (replicate n (Val 0))" by (simp add: GetSize_small)
  then show ?case by (subst zero_loop.simps) simp
next
  case (Suc k)
  then have lt: "i < n" by simp
  have sz: "int i < GetSize (replicate n (Val 0))"
    using lt Suc.prems by (simp add: GetSize_small)
  have same: "(replicate n (Val 0))[i := Val 0] = replicate n (Val 0)"
    using lt by (simp add: list_eq_iff_nth_eq nth_list_update)
  have "zero_loop i (replicate n (Val 0)) = zero_loop (Suc i) (replicate n (Val 0))"
    using sz lt by (subst zero_loop.simps) (simp add: same)
  also have "\<dots> = (replicate n (Val 0), None)"
    using Suc lt by (intro Suc.hyps) simp_all
  finally show ?case .
qed

lemma maxAbsComp_loop_zeros:
  "n < 2 ^ 31 \<Longrightarrow> i \<le> n \<Longrightarrow>
   maxAbsComp_loop i (replicate n (Val 0)) (Val 0) = Inr (Val 0)"
proof (induction "n - i" arbitrary: i)
  case 0
  then have "\<not> int i < GetSize (replicate n (Val 0))" by (simp add: GetSize_small)
  then show ?case by (subst maxAbsComp_loop.simps) simp
next
  case (Suc k)
  then have lt: "i < n" by simp
  have sz: "int i < GetSize (replicate n (Val 0))"
    using lt Suc.prems by (simp add: GetSize_small)
  have "maxAbsComp_loop i (replicate n (Val 0)) (Val 0) =
      maxAbsComp_loop (Suc i) (replicate n (Val 0)) (Val 0)"
    using sz lt by (subst maxAbsComp_loop.simps) (simp add: double_facts Let_def)
  also have "\<dots> = Inr (Val 0)"
    using Suc lt by (intro Suc.hyps) simp_all
  finally show ?case .
qed

lemma Dot_loop_zeros:
  "n < 2 ^ 31 \<Longrightarrow> i \<le> n \<Longrightarrow>
   Dot_loop i (replicate n (Val 0)) (replicate n (Val 0)) (Val 0) = Inr (Val 0)"
proof (induction "n - i" arbitrary: i)
  case 0
  then have "\<not> int i < GetSize (replicate n (Val 0))" by (simp add: GetSize_small)
  then show ?case by (subst Dot_loop.simps) simp
next
  case (Suc k)
  then have lt: "i < n" by simp
  have sz: "int i < GetSize (replicate n (Val 0))"
    using lt Suc.prems by (simp add: GetSize_small)
  have "Dot_loop i (replicate n (Val 0)) (replicate n (Val 0)) (Val 0) =
      Dot_loop (Suc i) (replicate n (Val 0)) (replicate n (Val 0)) (Val 0)"
    using sz lt by (subst Dot_loop.simps) (simp add: double_facts)
  also have "\<dots> = Inr (Val 0)"
    using Suc lt by (intro Suc.hyps) simp_all
  finally show ?case .
qed

text \<open>
  On the zero vector \<^verbatim>\<open>Normalize\<close> does what its header comment says: it returns the length
  0 and leaves the zero vector, in both modes (the robust mode on at least one component).
\<close>

lemma Normalize_zero_vector:
  assumes "n < 2 ^ 31" and "robust \<longrightarrow> 0 < n"
  shows "Normalize (replicate n (Val 0)) robust = (replicate n (Val 0), Inr (Val 0))"
proof (cases robust)
  case True
  then have pos: "0 < n" using assms(2) by simp
  then have mx: "maxAbsComp_loop (Suc 0) (replicate n (Val 0)) (Val 0) = Inr (Val 0)"
    using assms(1) by (intro maxAbsComp_loop_zeros) simp_all
  show ?thesis
    using True pos by (simp add: Normalize_def mx double_facts zero_loop_zeros [OF assms(1)])
next
  case False
  have "Dot (replicate n (Val 0)) (replicate n (Val 0)) = Inr (Val 0)"
    using assms(1) by (simp add: Dot_def Dot_loop_zeros)
  then show ?thesis
    using False
    by (simp add: Normalize_def double_facts Let_def zero_loop_zeros [OF assms(1)])
qed

text \<open>On the vector without components the robust mode stops at the read of \<^verbatim>\<open>v[0]\<close>.\<close>

lemma Normalize_robust_empty: "Normalize [] True = ([], Inl OutOfRange)"
  by (simp add: Normalize_def)

section \<open>Lemmas on the rigid bodies\<close>

lemma scale_Identity: "scale_Matrix3x3 s Identity = Mat3 (Vec3 s 0 0) (Vec3 0 s 0) (Vec3 0 0 s)"
  by (simp add: Identity_def)

lemma IsPositiveDefinite_scale_Identity:
  "IsPositiveDefinite (scale_Matrix3x3 s Identity) \<longleftrightarrow> 0 < s"
  by (auto simp: scale_Identity zero_less_mult_iff)

lemma sphere_mass_form:
  "\<rho> * (4 * pi * (r * r * r) / 3) = \<rho> * (4 / 3) * pi * r ^ 3"
  by (simp add: power3_eq_cube)

lemma sphere_mass_pos:
  assumes "0 < \<rho>" and "0 < r"
  shows "0 < \<rho> * (4 * pi * (r * r * r) / 3)"
proof -
  have "0 < r * r * r" using assms(2) by simp
  then have "0 < 4 * pi * (r * r * r) / 3" by simp
  then show ?thesis using assms(1) by (rule mult_pos_pos [rotated])
qed

lemma sphere_mass_nonpos:
  assumes "0 < \<rho>" and "r \<le> 0"
  shows "\<rho> * (4 * pi * (r * r * r) / 3) \<le> 0"
proof -
  have "0 \<le> r * r" by simp
  then have "(r * r) * r \<le> 0" using assms(2) by (rule mult_nonneg_nonpos)
  then have "4 * pi * (r * r * r) / 3 \<le> 0" by (simp add: mult_le_0_iff)
  then show ?thesis using assms(1) by (simp add: mult_le_0_iff)
qed

text \<open>The constructor in closed form: when it fails, and the sphere it builds otherwise.\<close>

lemma RigidSphere_ctor_eq:
  "RigidSphere_ctor b0 sphere \<rho> =
     (if \<rho> * (4 * pi * (radius sphere * radius sphere * radius sphere) / 3) \<le> 0
         \<or> \<rho> \<le> 0
      then Inl InvalidConfiguration
      else Inr \<lparr>mPosition = center sphere, mQuatOrient = mQuatOrient b0,
                 mLinearMomentum = mLinearMomentum b0,
                 mAngularMomentum = mAngularMomentum b0,
                 mMass = \<rho> * (4 * pi * (radius sphere * radius sphere * radius sphere) / 3),
                 mBodyInertia = Mat3 (Vec3 \<rho> 0 0) (Vec3 0 \<rho> 0) (Vec3 0 0 \<rho>),
                 mForce = mForce b0, mTorque = mTorque b0,
                 mWorldSphere = \<lparr>center = center sphere, radius = radius sphere\<rparr>\<rparr>)"
proof -
  let ?M = "\<rho> * (4 * pi * (radius sphere * radius sphere * radius sphere) / 3)"
  define this where "this = RigidBody.extend b0
                   (RigidSphere.fields \<lparr>center = Vec3 0 0 0, radius = radius sphere\<rparr>)"
  have c: "RigidSphere_ctor b0 sphere \<rho> =
     (case SetMass ?M this of
           Inl e \<Rightarrow> Inl e
         | Inr this1 \<Rightarrow>
             (case SetBodyInertia (scale_Matrix3x3 \<rho> Identity) this1 of
                Inl e \<Rightarrow> Inl e
              | Inr this2 \<Rightarrow>
                  Inr (UpdateWorldQuantities (SetPosition (center sphere) this2))))"
    unfolding RigidSphere_ctor_def Let_def GTE_C_PI_def this_def ..
  show ?thesis
  proof (cases "?M \<le> 0")
    case True
    then have "SetMass ?M this = Inl InvalidConfiguration"
      unfolding SetMass_def by (rule if_P)
    then show ?thesis using True unfolding c by simp
  next
    case False
    then have m: "SetMass ?M this = Inr (this\<lparr>mMass := ?M\<rparr>)"
      unfolding SetMass_def by (rule if_not_P)
    show ?thesis
    proof (cases "\<rho> \<le> 0")
      case True
      then have "\<not> IsPositiveDefinite (scale_Matrix3x3 \<rho> Identity)"
        by (simp add: IsPositiveDefinite_scale_Identity)
      then have "SetBodyInertia (scale_Matrix3x3 \<rho> Identity) (this\<lparr>mMass := ?M\<rparr>)
          = Inl InvalidConfiguration"
        unfolding SetBodyInertia_def by (rule if_not_P)
      then show ?thesis using True unfolding c m by simp
    next
      case rho: False
      then have "IsPositiveDefinite (scale_Matrix3x3 \<rho> Identity)"
        by (simp add: IsPositiveDefinite_scale_Identity)
      then have j: "SetBodyInertia (scale_Matrix3x3 \<rho> Identity) (this\<lparr>mMass := ?M\<rparr>)
          = Inr (this\<lparr>mMass := ?M, mBodyInertia := scale_Matrix3x3 \<rho> Identity\<rparr>)"
        unfolding SetBodyInertia_def by (rule if_P)
      have e1: "(if ?M \<le> 0 \<or> \<rho> \<le> 0 then Inl InvalidConfiguration else Inr X) = Inr X"
        for X :: RigidSphere
        using False rho by (simp only: if_False simp_thms)
      have e2: "UpdateWorldQuantities (SetPosition (center sphere)
              (this\<lparr>mMass := ?M, mBodyInertia := scale_Matrix3x3 \<rho> Identity\<rparr>)) =
            \<lparr>mPosition = center sphere, mQuatOrient = mQuatOrient b0,
                 mLinearMomentum = mLinearMomentum b0,
                 mAngularMomentum = mAngularMomentum b0,
                 mMass = ?M,
                 mBodyInertia = Mat3 (Vec3 \<rho> 0 0) (Vec3 0 \<rho> 0) (Vec3 0 0 \<rho>),
                 mForce = mForce b0, mTorque = mTorque b0,
                 mWorldSphere = \<lparr>center = center sphere, radius = radius sphere\<rparr>\<rparr>"
        by (simp add: this_def UpdateWorldQuantities_def SetPosition_def GetPosition_def
            RigidBody.extend_def RigidSphere.fields_def scale_Identity)
      show ?thesis by (simp only: c m j e1 e2 sum.case)
    qed
  qed
qed

lemma RigidSphere_ctor_succeeds:
  assumes "0 < \<rho>" and "0 < radius sphere"
  shows "\<exists>s. RigidSphere_ctor b0 sphere \<rho> = Inr s"
proof -
  have "\<not> (\<rho> * (4 * pi * (radius sphere * radius sphere * radius sphere) / 3) \<le> 0
           \<or> \<rho> \<le> 0)"
    using sphere_mass_pos [OF assms] assms(1) by simp
  then show ?thesis unfolding RigidSphere_ctor_eq by (simp only: if_False) blast
qed

lemma unit_ball_ctor: "RigidSphere_ctor body_at_rest unit_ball 1 = Inr unit_ball_body"
  by (simp add: RigidSphere_ctor_eq unit_ball_def unit_ball_body_def body_at_rest_def not_le)

lemma RigidSphere_exec_radius: "GetRadius (RigidSphere_exec a s) = GetRadius s"
  by (cases a; cases s)
    (simp_all add: GetRadius_def SetPosition_def UpdateWorldQuantities_def
      RigidBody.extend_def RigidBody.truncate_def)

lemma RigidSphere_run_radius: "GetRadius (RigidSphere_run s as) = GetRadius s"
  by (induction as arbitrary: s) (simp_all add: RigidSphere_exec_radius)

lemma RigidPlane_call_plane: "GetPlane (fst (RigidPlane_call a pl)) = GetPlane pl"
  by (cases a; cases pl) (simp_all add: GetPlane_def RigidBody.extend_def)

section \<open>The rigid sphere\<close>

text \<open>
  C1 (as the code has it). For every RigidSphere constructed from a sphere of radius \<open>r\<close>
  and a mass density \<open>\<rho>\<close>, the body inertia tensor set at construction is \<open>\<rho>\<close> times the
  3x3 identity matrix: the constructor passes \<^verbatim>\<open>massDensity * Matrix3x3<double>::Identity()\<close>
  to \<^verbatim>\<open>SetBodyInertia\<close>, and neither the mass nor the radius enters the tensor.
\<close>

theorem RigidSphere_ctor_inertia:
  assumes "RigidSphere_ctor b0 sphere \<rho> = Inr s"
  shows "GetBodyInertia s = Mat3 (Vec3 \<rho> 0 0) (Vec3 0 \<rho> 0) (Vec3 0 0 \<rho>)"
  using assms unfolding RigidSphere_ctor_eq GetBodyInertia_def
  by (auto split: if_splits)

theorem RigidSphere_ctor_inertia_witness:
  "RigidSphere_ctor body_at_rest unit_ball 1 = Inr unit_ball_body \<and>
   GetBodyInertia unit_ball_body = Mat3 (Vec3 1 0 0) (Vec3 0 1 0) (Vec3 0 0 1)"
  using unit_ball_ctor RigidSphere_ctor_inertia [OF unit_ball_ctor] by simp

text \<open>
  The formula \<open>(2/5) m r\<^sup>2 I\<close> fails for the unit ball of density 1: the constructor stores
  the identity matrix, and the formula gives \<open>(8 \<pi> / 15) I\<close>.
\<close>

theorem RigidSphere_ctor_inertia_counterexample:
  "RigidSphere_ctor body_at_rest unit_ball 1 = Inr unit_ball_body \<and>
   GetBodyInertia unit_ball_body \<noteq> spec_sphere_inertia 1 (radius unit_ball)"
proof -
  have "8 * pi / 15 \<noteq> 1" using pi_ge_two by simp
  then have "GetBodyInertia unit_ball_body \<noteq> spec_sphere_inertia 1 (radius unit_ball)"
    by (simp add: GetBodyInertia_def unit_ball_body_def unit_ball_def spec_sphere_inertia_def
        spec_sphere_mass_def scale_Identity)
  then show ?thesis using unit_ball_ctor by simp
qed

text \<open>
  C2. For every RigidSphere constructed from a sphere of radius \<open>r\<close> and a mass density
  \<open>\<rho>\<close>, the mass set at construction is \<open>\<rho> (4/3) \<pi> r\<^sup>3\<close>, the density times the volume
  of the solid sphere of radius \<open>r\<close>.
\<close>

theorem RigidSphere_ctor_mass:
  assumes "RigidSphere_ctor b0 sphere \<rho> = Inr s"
  shows "GetMass s = \<rho> * (4 / 3) * pi * radius sphere ^ 3"
proof -
  have "mMass s = \<rho> * (4 * pi * (radius sphere * radius sphere * radius sphere) / 3)"
    using assms unfolding RigidSphere_ctor_eq by (auto split: if_splits)
  then show ?thesis unfolding GetMass_def sphere_mass_form .
qed

theorem RigidSphere_ctor_mass_witness:
  "RigidSphere_ctor body_at_rest unit_ball 1 = Inr unit_ball_body \<and>
   GetMass unit_ball_body = 4 / 3 * pi"
  using unit_ball_ctor RigidSphere_ctor_mass [OF unit_ball_ctor]
  by (simp add: unit_ball_def)

text \<open>
  C4. For every constructed RigidSphere and after any sequence of operations on it, a call
  of \<^verbatim>\<open>UpdateWorldQuantities\<close> leaves the centre of the world sphere equal to the position
  \<^verbatim>\<open>GetPosition()\<close> of the body and its radius equal to the radius given at construction;
  \<^verbatim>\<open>UpdateWorldQuantities\<close> and \<^verbatim>\<open>SetPosition\<close> do not change the radius of any sphere.
\<close>

theorem RigidSphere_world_sphere:
  assumes "RigidSphere_ctor b0 sphere \<rho> = Inr s0"
  shows "center (GetWorldSphere (UpdateWorldQuantities (RigidSphere_run s0 as))) =
           GetPosition (UpdateWorldQuantities (RigidSphere_run s0 as))
       \<and> GetRadius (UpdateWorldQuantities (RigidSphere_run s0 as)) = radius sphere
       \<and> GetRadius (UpdateWorldQuantities t) = GetRadius t
       \<and> GetRadius (SetPosition p t) = GetRadius t"
proof -
  have r0: "GetRadius s0 = radius sphere"
    using assms unfolding RigidSphere_ctor_eq GetRadius_def by (auto split: if_splits)
  have u: "GetRadius (UpdateWorldQuantities x) = GetRadius x" for x
    using RigidSphere_exec_radius [of OpUpdateWorldQuantities x] by simp
  have sp: "GetRadius (SetPosition p t) = GetRadius t"
    using RigidSphere_exec_radius [of "OpSetPosition p" t] by simp
  have c: "center (GetWorldSphere (UpdateWorldQuantities x)) =
      GetPosition (UpdateWorldQuantities x)" for x
    by (simp add: GetWorldSphere_def UpdateWorldQuantities_def GetPosition_def)
  show ?thesis using c u sp r0 by (simp add: RigidSphere_run_radius)
qed

theorem RigidSphere_world_sphere_witness:
  "RigidSphere_ctor body_at_rest unit_ball 1 = Inr unit_ball_body \<and>
   center (GetWorldSphere (UpdateWorldQuantities
      (RigidSphere_run unit_ball_body [OpSetPosition (Vec3 0 5 0)]))) = Vec3 0 5 0 \<and>
   GetRadius (UpdateWorldQuantities
      (RigidSphere_run unit_ball_body [OpSetPosition (Vec3 0 5 0)])) = 1"
  using unit_ball_ctor
    RigidSphere_world_sphere [OF unit_ball_ctor, of "[OpSetPosition (Vec3 0 5 0)]"]
  by (simp add: unit_ball_def GetPosition_def SetPosition_def UpdateWorldQuantities_def
      unit_ball_body_def)

text \<open>
  C6. Constructing a RigidSphere whose inputs give a mass \<open>m \<le> 0\<close> fails with the fatal
  error and constructs no body; so does every construction with a density \<open>\<rho> \<le> 0\<close> or
  a radius \<open>r \<le> 0\<close>. The constructor itself has no check: the failure is that of the
  setters of RigidBody, which follow the spec.
\<close>

theorem RigidSphere_ctor_fail:
  assumes "\<rho> * (4 / 3) * pi * radius sphere ^ 3 \<le> 0 \<or> \<rho> \<le> 0 \<or> radius sphere \<le> 0"
  shows "RigidSphere_ctor b0 sphere \<rho> = Inl InvalidConfiguration"
proof -
  let ?M = "\<rho> * (4 * pi * (radius sphere * radius sphere * radius sphere) / 3)"
  have "?M \<le> 0 \<or> \<rho> \<le> 0"
  proof (cases "\<rho> \<le> 0")
    case True then show ?thesis by (rule disjI2)
  next
    case False
    then have pos: "0 < \<rho>" by simp
    from assms False
    have "\<rho> * (4 / 3) * pi * radius sphere ^ 3 \<le> 0 \<or> radius sphere \<le> 0" by blast
    then have "?M \<le> 0"
    proof
      assume "\<rho> * (4 / 3) * pi * radius sphere ^ 3 \<le> 0"
      then show ?thesis unfolding sphere_mass_form .
    next
      assume "radius sphere \<le> 0"
      with pos show ?thesis by (rule sphere_mass_nonpos)
    qed
    then show ?thesis by (rule disjI1)
  qed
  then show ?thesis unfolding RigidSphere_ctor_eq by (rule if_P)
qed

theorem RigidSphere_ctor_fail_witness:
  "(0::real) * (4 / 3) * pi * radius unit_ball ^ 3 \<le> 0 \<and>
   RigidSphere_ctor body_at_rest unit_ball 0 = Inl InvalidConfiguration"
proof -
  have h: "(0::real) * (4 / 3) * pi * radius unit_ball ^ 3 \<le> 0" by simp
  then have "(0::real) * (4 / 3) * pi * radius unit_ball ^ 3 \<le> 0 \<or> (0::real) \<le> 0
      \<or> radius unit_ball \<le> 0"
    by (rule disjI1)
  then have "RigidSphere_ctor body_at_rest unit_ball 0 = Inl InvalidConfiguration"
    by (rule RigidSphere_ctor_fail)
  with h show ?thesis by (rule conjI)
qed

text \<open>
  C7. Setting the position of a body and reading it back returns the value that was set:
  after \<^verbatim>\<open>SetPosition(p)\<close>, \<^verbatim>\<open>GetPosition()\<close> is \<open>p\<close> itself, for every body (a sphere and a
  plane included) and whatever the type of the scalars.
\<close>

theorem SetPosition_GetPosition:
  "GetPosition (SetPosition p b) = p"
  by (simp add: GetPosition_def SetPosition_def)

theorem SetPosition_GetPosition_witness:
  "GetPosition (SetPosition (Vec3 1 2 3) unit_ball_body) = Vec3 (1::real) 2 3"
  using SetPosition_GetPosition [of "Vec3 1 2 3" unit_ball_body] by simp

section \<open>The rigid plane\<close>

text \<open>
  C3. The plane stored in a RigidPlane never changes after construction: after any
  sequence of operations (the two member functions of RigidPlane and any inherited member
  function of RigidBody, through which a simulation step acts on a body), \<^verbatim>\<open>GetPlane\<close>
  returns the normal and the constant that it returned before.
\<close>

theorem RigidPlane_plane_immutable:
  "GetPlane (RigidPlane_run pl as) = GetPlane pl"
  by (induction as arbitrary: pl) (simp_all add: RigidPlane_call_plane)

theorem RigidPlane_plane_immutable_witness:
  "GetPlane (RigidPlane_run floor_plane
      [OpInheritedP (SetPosition (Vec3 1 2 3)), OpGetSignedDistance (Vec3 0 5 0), OpGetPlane])
   = \<lparr>normal = Vec3 0 1 0, constant = 0\<rparr>"
  using RigidPlane_plane_immutable [of floor_plane
      "[OpInheritedP (SetPosition (Vec3 1 2 3)), OpGetSignedDistance (Vec3 0 5 0), OpGetPlane]"]
  by (simp add: GetPlane_def floor_plane_def)

text \<open>
  C5. For every RigidPlane with the plane \<open>(n, d)\<close> and every point \<open>p\<close>,
  \<^verbatim>\<open>GetSignedDistance(p)\<close> returns \<open>n\<cdot>p - d\<close>, the dot product of the normal with the point
  minus the constant, and leaves the plane object as it was.
\<close>

theorem GetSignedDistance_spec:
  "RigidPlane_call (OpGetSignedDistance point) pl =
     (pl, RetReal (c0 (normal (GetPlane pl)) * c0 point + c1 (normal (GetPlane pl)) * c1 point
                   + c2 (normal (GetPlane pl)) * c2 point - constant (GetPlane pl)))"
  by (simp add: GetSignedDistance_def Dot3_def GetPlane_def)

theorem GetSignedDistance_spec_witness:
  "RigidPlane_call (OpGetSignedDistance (Vec3 3 5 7)) floor_plane = (floor_plane, RetReal 5)"
  using GetSignedDistance_spec [of "Vec3 3 5 7" floor_plane]
  by (simp add: GetPlane_def floor_plane_def)

section \<open>GVector\<close>

text \<open>
  C8. \<^verbatim>\<open>Normalize\<close> is not guarded as it should be: it is to return the length 0 with the
  zero vector for a vector of length zero and to produce no NaN or infinity, in both
  modes, and the header comment of GVector.h says that the robust mode is designed to
  avoid floating-point overflow. For the vector \<open>v = (2\<^sup>-\<^sup>1\<^sup>0\<^sup>7\<^sup>4, 0)\<close>, whose length
  \<^verbatim>\<open>Length(v, false)\<close> is computed as 0, the robust mode finds
  \<^verbatim>\<open>maxAbsComp\<close> \<open>= 2\<^sup>-\<^sup>1\<^sup>0\<^sup>7\<^sup>4 > 0\<close> and divides: \<^verbatim>\<open>1 / maxAbsComp\<close> overflows to
  \<open>+\<infinity>\<close>, the scaled vector is \<open>(+\<infinity>, NaN)\<close>, its length is NaN, the second division
  passes the test \<^verbatim>\<open>scalar != 0\<close>, and \<^verbatim>\<open>Normalize\<close> returns NaN with \<open>v = (NaN, NaN)\<close>
  and no error.
\<close>

theorem Normalize_robust_NaN:
  "Length [min_subnormal, Val 0] False = Inr (Val 0) \<and>
   Normalize [min_subnormal, Val 0] True = ([NaN, NaN], Inr NaN)"
proof -
  have l: "Length [min_subnormal, Val 0] False = Inr (Val 0)"
    by (simp add: Length_def Dot_def GetSize_def Dot_loop.simps min_subnormal_squared
        double_facts)
  have mx: "maxAbsComp_loop 1 [min_subnormal, Val 0] (fabs ([min_subnormal, Val 0] ! 0))
      = Inr min_subnormal"
    by (simp add: maxAbsComp_loop.simps GetSize_def min_subnormal_facts double_facts)
  have d1: "operator_div_assign [min_subnormal, Val 0] min_subnormal = ([PInf, NaN], None)"
    by (simp add: operator_div_assign_def mul_assign_loop.simps min_subnormal_facts
        one_over_min_subnormal GetSize_def double_facts)
  have dot: "Dot [PInf, NaN] [PInf, NaN] = Inr NaN"
    by (simp add: Dot_def Dot_loop.simps GetSize_def double_facts)
  have d2: "operator_div_assign [PInf, NaN] NaN = ([NaN, NaN], None)"
    by (simp add: operator_div_assign_def mul_assign_loop.simps GetSize_def double_facts)
  have n: "Normalize [min_subnormal, Val 0] True = ([NaN, NaN], Inr NaN)"
    unfolding Normalize_def
    by (simp only: mx d1 dot d2 double_facts min_subnormal_facts if_True Let_def
        sum.case prod.case option.case list.size length_Cons) simp
  show ?thesis using l n by (rule conjI)
qed

text \<open>
  C9. \<^verbatim>\<open>MakeUnit(d)\<close> is total for every vector and every \<^verbatim>\<open>int32_t\<close> index \<open>d\<close>: it makes
  no element access out of range, and on a vector of size \<open>n\<close> it sets all components to 0
  and then component \<open>d\<close> to 1 when \<open>0 \<le> d < n\<close>; for any other \<open>d\<close> the result is the zero
  vector.
\<close>

theorem MakeUnit_total:
  "snd (MakeUnit v d) = None \<and>
   (length v < 2 ^ 31 \<longrightarrow>
      fst (MakeUnit v d) =
        (if 0 \<le> sint d \<and> sint d < int (length v)
         then (replicate (length v) 0)[nat (sint d) := 1]
         else replicate (length v) 0))"
proof -
  have le: "sint (word_of_nat (length v) :: int32_t) \<le> int (length v)"
    using GetSize_le_length [of v] by (simp add: GetSize_def)
  have a: "snd (MakeUnit v d) = None"
    using le by (auto simp: MakeUnit_def Let_def fill_replicate)
  have b: "fst (MakeUnit v d) =
        (if 0 \<le> sint d \<and> sint d < int (length v)
         then (replicate (length v) 0)[nat (sint d) := 1]
         else replicate (length v) 0)" if "length v < 2 ^ 31"
    using GetSize_small [OF that] by (auto simp: MakeUnit_def Let_def fill_replicate GetSize_def)
  show ?thesis using a b by blast
qed

theorem MakeUnit_total_witness:
  "length [5, 6, 7 :: int] < 2 ^ 31 \<and>
   MakeUnit [5, 6, 7 :: int] 1 = ([0, 1, 0], None) \<and>
   MakeUnit [5, 6, 7 :: int] 3 = ([0, 0, 0], None) \<and>
   MakeUnit [5, 6, 7 :: int] (- 1) = ([0, 0, 0], None)"
  using MakeUnit_total [of "[5, 6, 7 :: int]" 1] MakeUnit_total [of "[5, 6, 7 :: int]" 3]
    MakeUnit_total [of "[5, 6, 7 :: int]" "- 1"]
  by (simp add: prod_eq_iff)

text \<open>
  C10. \<^verbatim>\<open>operator+=\<close> is atomic on error: for vectors \<open>v0\<close> and \<open>v1\<close> it computes the
  componentwise sum into \<open>v0\<close> exactly when the sizes are equal, and when they differ it
  raises the error "Mismatched sizes." with \<open>v0\<close> unchanged.
\<close>

theorem operator_add_assign_atomic:
  assumes "length v0 < 2 ^ 31" and "length v1 < 2 ^ 31"
  shows "operator_add_assign v0 v1 =
     (if length v0 = length v1 then (map2 (+) v0 v1, None)
      else (v0, Some (LogError ''Mismatched sizes.'')))"
  using assms by (simp add: operator_add_assign_def GetSize_small add_assign_loop_eq)

theorem operator_add_assign_atomic_witness:
  "length [1, 2, 3 :: int] < 2 ^ 31 \<and> length [10, 20, 30 :: int] < 2 ^ 31 \<and>
   length [10, 20 :: int] < 2 ^ 31 \<and>
   operator_add_assign [1, 2, 3 :: int] [10, 20, 30] = ([11, 22, 33], None) \<and>
   operator_add_assign [1, 2, 3 :: int] [10, 20] =
     ([1, 2, 3], Some (LogError ''Mismatched sizes.''))"
  using operator_add_assign_atomic [of "[1, 2, 3 :: int]" "[10, 20, 30]"]
    operator_add_assign_atomic [of "[1, 2, 3 :: int]" "[10, 20]"]
  by simp

end
